theory Spec2Isabelle
  imports Complex_Main "HOL-Library.Code_Target_Numeral"
begin

section \<open>JavaScript numbers\<close>

text \<open>
  The services compute rewards with JavaScript \<^verbatim>\<open>number\<close>s, that is IEEE 754 binary64
  values. A finite double is represented by the rational it denotes; every arithmetic
  operation computes the exact rational result and rounds it to the nearest double, ties
  to the even significand. \<open>NaN\<close> is kept as a value of its own, because reading a
  missing JSON field and multiplying it produces it. Infinities and the sign of zero are
  not represented: overflow needs magnitudes of \<open>2 ^ 1024\<close>, far from any amount here.
\<close>

fun bit_length :: "nat \<Rightarrow> nat" where
  "bit_length n = (if n = 0 then 0 else Suc (bit_length (n div 2)))"

declare bit_length.simps [simp del]

definition pow2 :: "int \<Rightarrow> rat" where
  "pow2 e = (if 0 \<le> e then 2 ^ nat e else 1 / 2 ^ nat (- e))"

text \<open>The exponent \<open>e\<close> with \<open>2 ^ e \<le> a < 2 ^ (e + 1)\<close>, for \<open>a > 0\<close>.\<close>

definition binary_exponent :: "rat \<Rightarrow> int" where
  "binary_exponent a =
     (if 1 \<le> a then int (bit_length (nat \<lfloor>a\<rfloor>)) - 1
      else - int (bit_length (nat (\<lceil>1 / a\<rceil> - 1))))"

definition round_half_even :: "rat \<Rightarrow> int" where
  "round_half_even m =
     (let f = \<lfloor>m\<rfloor>; r = m - of_int f
      in if r < 1 / 2 then f
         else if 1 / 2 < r then f + 1
         else if even f then f else f + 1)"

text \<open>
  Rounding to binary64: 53 significant bits, so the spacing of doubles around \<open>a\<close> is
  \<open>2 ^ (e - 52)\<close>; below \<open>2 ^ (- 1022)\<close> the spacing stays that of the subnormals.
\<close>

definition round_to_double :: "rat \<Rightarrow> rat" where
  "round_to_double x =
     (if x = 0 then 0
      else let a = \<bar>x\<bar>;
               e = max (binary_exponent a) (- 1022);
               q = pow2 (e - 52)
           in sgn x * of_int (round_half_even (a / q)) * q)"

datatype number = Num rat | NaN

text \<open>A decimal literal of the source text denotes the nearest double.\<close>

definition lit :: "rat \<Rightarrow> number" where
  "lit x = Num (round_to_double x)"

definition number_of_int :: "int \<Rightarrow> number" where
  "number_of_int i = Num (round_to_double (of_int i))"

fun js_times :: "number \<Rightarrow> number \<Rightarrow> number" where
  "js_times (Num x) (Num y) = Num (round_to_double (x * y))"
| "js_times _ _ = NaN"

fun js_plus :: "number \<Rightarrow> number \<Rightarrow> number" where
  "js_plus (Num x) (Num y) = Num (round_to_double (x + y))"
| "js_plus _ _ = NaN"

fun js_minus :: "number \<Rightarrow> number \<Rightarrow> number" where
  "js_minus (Num x) (Num y) = Num (round_to_double (x - y))"
| "js_minus _ _ = NaN"

text \<open>
  The only divisors in the source are the literals 100 and 10000; a zero divisor,
  which would give an infinity, is mapped to \<open>NaN\<close>.
\<close>

fun js_divide :: "number \<Rightarrow> number \<Rightarrow> number" where
  "js_divide (Num x) (Num y) = (if y = 0 then NaN else Num (round_to_double (x / y)))"
| "js_divide _ _ = NaN"

text \<open>Every comparison with \<open>NaN\<close> is false.\<close>

fun js_less :: "number \<Rightarrow> number \<Rightarrow> bool" where
  "js_less (Num x) (Num y) = (x < y)"
| "js_less _ _ = False"

definition js_greater :: "number \<Rightarrow> number \<Rightarrow> bool" where
  "js_greater x y = js_less y x"

fun js_greater_eq :: "number \<Rightarrow> number \<Rightarrow> bool" where
  "js_greater_eq (Num x) (Num y) = (y \<le> x)"
| "js_greater_eq _ _ = False"

fun Math_max :: "number \<Rightarrow> number \<Rightarrow> number" where
  "Math_max (Num x) (Num y) = Num (max x y)"
| "Math_max _ _ = NaN"

text \<open>\<^verbatim>\<open>Math.round\<close>: the nearest integer, a tie going up.\<close>

fun Math_round :: "number \<Rightarrow> number" where
  "Math_round (Num x) = Num (of_int \<lfloor>x + 1 / 2\<rfloor>)"
| "Math_round NaN = NaN"

section \<open>Data model\<close>

datatype error =
    Error string
  | ValidationError string
  | DatabaseError string

datatype session_status = planned | active | completed | abandoned | paused

datatype task_status = pending | in_progress | task_completed | cancelled

record task =
  task_userId :: string
  category :: string
  task_status :: task_status
  completedAt :: "int option"

text \<open>
  A \<^verbatim>\<open>FocusSession\<close> object. Times are milliseconds, as \<^verbatim>\<open>Date.getTime()\<close>
  gives them. The field \<open>task\<close> is what \<^verbatim>\<open>calculateEnergyEarned\<close> reads as
  \<^verbatim>\<open>session.task\<close>; identifiers are UUID strings and an absent optional field is
  \<open>None\<close>.
\<close>

record focus_session =
  session_id :: string
  userId :: string
  taskId :: "string option"
  task :: "task option"
  startTime :: int
  endTime :: "int option"
  plannedDuration :: int
  actualDuration :: "int option"
  status :: session_status
  energyGenerated :: "number option"
  dopamineGenerated :: "number option"
  moduleConfigurationId :: "string option"
  interruptionCount :: int

record module_preset =
  preset_userId :: string
  isActive :: bool
  configuration :: "string list"
  dopamineGenerationRate :: number

text \<open>
  A row of \<^verbatim>\<open>user_currency_balances\<close> and a row of \<^verbatim>\<open>currency_transactions\<close>.
  The numeric columns hold exact values or the numeric \<open>NaN\<close> that PostgreSQL admits;
  the scale and precision of the \<^verbatim>\<open>DECIMAL\<close> columns, the generated keys and the
  timestamps are left out.
\<close>

record balance_row =
  energy_balance :: number
  dopamine_balance :: number
  total_energy_earned :: number
  total_dopamine_earned :: number

record currency_transaction =
  tx_user_id :: string
  transaction_type :: string
  energy_amount :: number
  dopamine_amount :: number
  balance_after_energy :: number
  balance_after_dopamine :: number
  reference_id :: "string option"
  reference_type :: "string option"

record database =
  tasks :: "string \<rightharpoonup> task"
  modulePresets :: "string \<rightharpoonup> module_preset"
  userModules :: "(string \<times> string) list"
  focusSessions :: "string \<rightharpoonup> focus_session"
  user_currency_balances :: "string \<rightharpoonup> balance_row"
  currency_transactions :: "currency_transaction list"

text \<open>
  The JSON document cached under \<^verbatim>\<open>session:<id>\<close>: the session and, when the writer
  put it there, the field \<^verbatim>\<open>dopamineGenerationRate\<close>.
\<close>

record cached_session =
  cached :: focus_session
  cached_dopamineGenerationRate :: "number option"

text \<open>A Redis entry is a value with the time at which it expires.\<close>

type_synonym redis = "string \<rightharpoonup> cached_session \<times> int"

record world =
  db :: database
  redis :: redis

record completion_result =
  result_session :: focus_session
  energyEarned :: number
  dopamineEarned :: number
  taskCompleted :: bool

record create_session_data =
  data_userId :: string
  data_taskId :: "string option"
  data_plannedDuration :: int
  data_moduleConfigurationId :: "string option"

section \<open>Constants\<close>

text \<open>\<^verbatim>\<open>CURRENCY_CONSTANTS\<close> of \<^verbatim>\<open>packages/shared/src/constants/currency.ts\<close>.\<close>

definition ENERGY_MAX_BALANCE :: rat where
  "ENERGY_MAX_BALANCE = 10000"

definition DOPAMINE_MAX_BALANCE :: rat where
  "DOPAMINE_MAX_BALANCE = 1000000"

definition MIN_SESSION_DURATION :: int where
  "MIN_SESSION_DURATION = 1"

definition MAX_SESSION_DURATION :: int where
  "MAX_SESSION_DURATION = 480"

section \<open>Redis\<close>

definition session_key :: "string \<Rightarrow> string" where
  "session_key sid = ''session:'' @ sid"

text \<open>\<^verbatim>\<open>SETEX key seconds value\<close>, \<^verbatim>\<open>GET key\<close> and \<^verbatim>\<open>DEL key\<close> at time \<open>now\<close>.\<close>

definition redis_setex :: "redis \<Rightarrow> int \<Rightarrow> string \<Rightarrow> int \<Rightarrow> cached_session \<Rightarrow> redis" where
  "redis_setex r now key seconds v = r(key \<mapsto> (v, now + seconds * 1000))"

definition redis_get :: "redis \<Rightarrow> int \<Rightarrow> string \<Rightarrow> cached_session option" where
  "redis_get r now key =
     (case r key of
        None \<Rightarrow> None
      | Some (v, expires) \<Rightarrow> if now < expires then Some v else None)"

definition redis_del :: "redis \<Rightarrow> string \<Rightarrow> redis" where
  "redis_del r key = r(key := None)"

section \<open>Reward calculation\<close>

text \<open>
  \<^verbatim>\<open>FocusSessionService.calculateEnergyEarned\<close>. The object literal
  \<^verbatim>\<open>categoryBonuses\<close> is an association list; a category that is not a key gives
  \<^verbatim>\<open>undefined\<close>, which \<^verbatim>\<open>|| 1.0\<close> replaces by 1.
\<close>

definition categoryBonuses :: "(string \<times> number) list" where
  "categoryBonuses =
     [(''analytical'', lit (12 / 10)),
      (''creative'', lit (11 / 10)),
      (''learning'', lit (115 / 100)),
      (''physical'', lit (9 / 10))]"

definition category_bonus :: "string \<Rightarrow> number" where
  "category_bonus c = (case map_of categoryBonuses c of Some b \<Rightarrow> b | None \<Rightarrow> lit 1)"

definition calculateEnergyEarned :: "focus_session \<Rightarrow> int \<Rightarrow> number" where
  "calculateEnergyEarned session duration =
     (let baseEnergy = number_of_int duration;
          baseEnergy = (case task session of
                          Some t \<Rightarrow> js_times baseEnergy (category_bonus (category t))
                        | None \<Rightarrow> baseEnergy);
          baseEnergy = (if 25 \<le> duration then js_times baseEnergy (lit (11 / 10))
                        else baseEnergy);
          baseEnergy = (if 50 \<le> duration then js_times baseEnergy (lit (12 / 10))
                        else baseEnergy);
          baseEnergy = (if 0 < interruptionCount session
                        then js_times baseEnergy
                               (Math_max (lit (1 / 2))
                                  (js_minus (lit 1)
                                     (js_times (number_of_int (interruptionCount session))
                                        (lit (1 / 10)))))
                        else baseEnergy)
      in js_divide (Math_round (js_times baseEnergy (lit 100))) (lit 100))"

text \<open>
  \<^verbatim>\<open>FocusSessionService.calculateDopamineEarned\<close>. Destructuring a document without
  the field gives \<^verbatim>\<open>undefined\<close>, and \<^verbatim>\<open>undefined * duration\<close> is \<open>NaN\<close>.
\<close>

definition calculateDopamineEarned :: "redis \<Rightarrow> int \<Rightarrow> focus_session \<Rightarrow> int \<Rightarrow> number" where
  "calculateDopamineEarned r now session duration =
     (case moduleConfigurationId session of
        None \<Rightarrow> Num 0
      | Some _ \<Rightarrow>
          (case redis_get r now (session_key (session_id session)) of
             None \<Rightarrow> Num 0
           | Some cachedSession \<Rightarrow>
               let rate = (case cached_dopamineGenerationRate cachedSession of
                             None \<Rightarrow> NaN
                           | Some x \<Rightarrow> x)
               in js_divide
                    (Math_round (js_times (js_times rate (number_of_int duration)) (lit 10000)))
                    (lit 10000)))"

text \<open>
  The reference implementation \<^verbatim>\<open>calculateEnergy\<close> of the coding standards, on
  \<^verbatim>\<open>Decimal\<close> values, which are exact. \<^verbatim>\<open>Decimal\<close> objects are immutable: the
  statement \<^verbatim>\<open>withBonus.mul(1.1)\<close> builds a product and drops it, which the unused
  binding below records. \<^verbatim>\<open>toDecimalPlaces(2)\<close> rounds half away from zero, the
  library's default mode; its default precision of 20 significant digits is not
  reached by a product of a duration in minutes and a multiplier.
\<close>

text \<open>
  Modelled from the spec: the table \<^verbatim>\<open>CATEGORY_BONUSES\<close> that \<^verbatim>\<open>calculateEnergy\<close>
  indexes is not in the source; it is given the category multipliers of the
  specification, the values of \<^verbatim>\<open>categoryBonuses\<close> above.
\<close>

definition CATEGORY_BONUSES :: "(string \<times> rat) list" where
  "CATEGORY_BONUSES =
     [(''analytical'', 12 / 10),
      (''creative'', 11 / 10),
      (''learning'', 115 / 100),
      (''physical'', 9 / 10)]"



text \<open>
  The formulas as the specification words them, in exact decimal arithmetic. Energy:
  duration times the category multiplier, times 1.10 from 25 minutes and a further 1.20
  from 50 minutes, times \<open>max(0.5, 1 - 0.1 k)\<close>, rounded half-up to two places.
  Dopamine: rate times duration, rounded half-up to four places.
\<close>

definition spec_category_multiplier :: "string option \<Rightarrow> rat" where
  "spec_category_multiplier c =
     (if c = Some ''analytical'' then 120 / 100
      else if c = Some ''learning'' then 115 / 100
      else if c = Some ''creative'' then 110 / 100
      else if c = Some ''physical'' then 90 / 100
      else 1)"

definition round_half_up :: "nat \<Rightarrow> rat \<Rightarrow> rat" where
  "round_half_up places x = of_int \<lfloor>x * 10 ^ places + 1 / 2\<rfloor> / 10 ^ places"

definition spec_energy :: "int \<Rightarrow> int \<Rightarrow> string option \<Rightarrow> rat" where
  "spec_energy d k c =
     round_half_up 2
       (of_int d * spec_category_multiplier c
        * (if 25 \<le> d then 110 / 100 else 1)
        * (if 50 \<le> d then 120 / 100 else 1)
        * max (1 / 2) (1 - of_int k / 10))"


section \<open>Ledger\<close>

text \<open>
  PostgreSQL's \<^verbatim>\<open>numeric\<close> arithmetic is exact. Its \<open>NaN\<close> absorbs every operation,
  equals itself and is ordered above every number, so a \<^verbatim>\<open>CHECK (c >= 0)\<close> accepts it.
\<close>

fun sql_plus :: "number \<Rightarrow> number \<Rightarrow> number" where
  "sql_plus (Num x) (Num y) = Num (x + y)"
| "sql_plus _ _ = NaN"

fun sql_minus :: "number \<Rightarrow> number \<Rightarrow> number" where
  "sql_minus (Num x) (Num y) = Num (x - y)"
| "sql_minus _ _ = NaN"

fun sql_le :: "number \<Rightarrow> number \<Rightarrow> bool" where
  "sql_le (Num x) (Num y) = (x \<le> y)"
| "sql_le _ NaN = True"
| "sql_le NaN (Num y) = False"

text \<open>A numeric column read into a JavaScript number.\<close>

fun to_js :: "number \<Rightarrow> number" where
  "to_js (Num x) = Num (round_to_double x)"
| "to_js NaN = NaN"

text \<open>The four \<^verbatim>\<open>CHECK\<close> constraints of \<^verbatim>\<open>user_currency_balances\<close>.\<close>

definition balance_checks :: "balance_row \<Rightarrow> bool" where
  "balance_checks b \<longleftrightarrow>
     sql_le (Num 0) (energy_balance b) \<and> sql_le (Num 0) (dopamine_balance b)
     \<and> sql_le (Num 0) (total_energy_earned b) \<and> sql_le (Num 0) (total_dopamine_earned b)"

text \<open>
  The trigger function \<^verbatim>\<open>log_currency_transaction\<close>, run after each update of a balance
  row, in the updating transaction. The trigger is created without arguments, so
  \<^verbatim>\<open>TG_ARGV[0]\<close> and \<^verbatim>\<open>TG_ARGV[1]\<close> are null; a column that the \<^verbatim>\<open>INSERT\<close> does not
  name takes its default 0.
\<close>

definition log_currency_transaction :: "string \<Rightarrow> balance_row \<Rightarrow> balance_row \<Rightarrow> currency_transaction list" where
  "log_currency_transaction user_id OLD NEW =
     (if energy_balance NEW \<noteq> energy_balance OLD
      then [\<lparr>tx_user_id = user_id, transaction_type = ''balance_update'',
             energy_amount = sql_minus (energy_balance NEW) (energy_balance OLD),
             dopamine_amount = Num 0,
             balance_after_energy = energy_balance NEW,
             balance_after_dopamine = dopamine_balance NEW,
             reference_id = None, reference_type = None\<rparr>]
      else [])
     @ (if dopamine_balance NEW \<noteq> dopamine_balance OLD
        then [\<lparr>tx_user_id = user_id, transaction_type = ''balance_update'',
               energy_amount = Num 0,
               dopamine_amount = sql_minus (dopamine_balance NEW) (dopamine_balance OLD),
               balance_after_energy = energy_balance NEW,
               balance_after_dopamine = dopamine_balance NEW,
               reference_id = None, reference_type = None\<rparr>]
        else [])"

text \<open>The \<^verbatim>\<open>SET\<close> clause of the \<^verbatim>\<open>UPDATE\<close> in \<^verbatim>\<open>processSessionRewards\<close>.\<close>

definition update_balances_set :: "balance_row \<Rightarrow> number \<Rightarrow> number \<Rightarrow> balance_row" where
  "update_balances_set b energyAmount dopamineAmount =
     \<lparr>energy_balance = sql_plus (energy_balance b) energyAmount,
      dopamine_balance = sql_plus (dopamine_balance b) dopamineAmount,
      total_energy_earned = sql_plus (total_energy_earned b) energyAmount,
      total_dopamine_earned = sql_plus (total_dopamine_earned b) dopamineAmount\<rparr>"

text \<open>
  The \<^verbatim>\<open>UPDATE\<close> statement against the schema: the row of the user is rewritten, a
  violated \<^verbatim>\<open>CHECK\<close> raises, and the trigger appends its rows.
\<close>

definition update_user_currency_balances :: "database \<Rightarrow> string \<Rightarrow> number \<Rightarrow> number \<Rightarrow> error + database" where
  "update_user_currency_balances d user_id energyAmount dopamineAmount =
     (case user_currency_balances d user_id of
        None \<Rightarrow> Inr d
      | Some OLD \<Rightarrow>
          let NEW = update_balances_set OLD energyAmount dopamineAmount
          in if \<not> balance_checks NEW then Inl (DatabaseError ''check constraint'')
             else Inr (d\<lparr>user_currency_balances := (user_currency_balances d)(user_id \<mapsto> NEW),
                         currency_transactions :=
                           currency_transactions d @ log_currency_transaction user_id OLD NEW\<rparr>))"

text \<open>
  Modelled from the spec: \<^verbatim>\<open>getBalancesWithLock\<close> is called but not defined in the
  source. It reads the balance row of the user, and the absence of the row is a hard
  failure (the specification's \<^verbatim>\<open>UserNotFound\<close>).
\<close>

definition getBalancesWithLock :: "database \<Rightarrow> string \<Rightarrow> error + balance_row" where
  "getBalancesWithLock d user =
     (case user_currency_balances d user of
        None \<Rightarrow> Inl (Error ''UserNotFound'')
      | Some b \<Rightarrow> Inr b)"

text \<open>
  \<^verbatim>\<open>CurrencyService.processSessionRewards\<close>. The body runs in one database transaction,
  so an exception leaves the database as it was: the result is either an error or the
  new database. The \<^verbatim>\<open>catch\<close> block passes a \<^verbatim>\<open>ValidationError\<close> on and wraps
  every other exception in a \<^verbatim>\<open>DatabaseError\<close>. \<^verbatim>\<open>newDopamineBalance\<close> is computed
  and only written to the log. The session identifier is only logged as well.
\<close>

definition processSessionRewards :: "database \<Rightarrow> string \<Rightarrow> number \<Rightarrow> number \<Rightarrow> string \<Rightarrow> error + database" where
  "processSessionRewards d user energyAmount dopamineAmount sessionId =
     (case getBalancesWithLock d user of
        Inl e \<Rightarrow> Inl (DatabaseError ''Failed to process session rewards'')
      | Inr currentBalances \<Rightarrow>
          if js_less energyAmount (Num 0)
          then Inl (ValidationError ''Energy reward cannot be negative'')
          else let newEnergyBalance = js_plus (to_js (energy_balance currentBalances)) energyAmount;
                   newDopamineBalance = js_plus (to_js (dopamine_balance currentBalances)) dopamineAmount
               in if js_greater newEnergyBalance (Num ENERGY_MAX_BALANCE)
                  then Inl (ValidationError ''Energy balance would exceed maximum limit'')
                  else (case update_user_currency_balances d user energyAmount dopamineAmount of
                          Inl e \<Rightarrow> Inl (DatabaseError ''Failed to process session rewards'')
                        | Inr d' \<Rightarrow> Inr d'))"

text \<open>
  A sequence of credit calls \<open>(user, energyAmount, dopamineAmount, sessionId)\<close>; a call
  that throws leaves the database unchanged and the next one runs.
\<close>

fun credit_all :: "database \<Rightarrow> (string \<times> number \<times> number \<times> string) list \<Rightarrow> database" where
  "credit_all d [] = d"
| "credit_all d ((user, energyAmount, dopamineAmount, sessionId) # ops) =
     (case processSessionRewards d user energyAmount dopamineAmount sessionId of
        Inl e \<Rightarrow> credit_all d ops
      | Inr d' \<Rightarrow> credit_all d' ops)"

section \<open>Focus session service\<close>

text \<open>
  \<^verbatim>\<open>validateModuleConfiguration\<close>: the preset exists, is the user's, is active, and
  the user owns every module it names.
\<close>

definition validateModuleConfiguration :: "database \<Rightarrow> string \<Rightarrow> string \<Rightarrow> error + module_preset" where
  "validateModuleConfiguration d configId user =
     (case modulePresets d configId of
        None \<Rightarrow> Inl (Error ''Module configuration not found or access denied'')
      | Some preset \<Rightarrow>
          if preset_userId preset \<noteq> user
          then Inl (Error ''Module configuration not found or access denied'')
          else if \<not> isActive preset
          then Inl (Error ''Module configuration is not active'')
          else let userModuleIds = map snd (filter (\<lambda>um. fst um = user) (userModules d))
               in (case find (\<lambda>moduleId. moduleId \<notin> set userModuleIds) (configuration preset) of
                     Some moduleId \<Rightarrow>
                       Inl (Error (''User does not own required module: '' @ moduleId))
                   | None \<Rightarrow> Inr preset))"

definition validateSessionAccess :: "database \<Rightarrow> string \<Rightarrow> string \<Rightarrow> error + focus_session" where
  "validateSessionAccess d sessionId user =
     (case focusSessions d sessionId of
        None \<Rightarrow> Inl (Error ''Focus session not found'')
      | Some session \<Rightarrow>
          if userId session \<noteq> user then Inl (Error ''Access denied to focus session'')
          else Inr session)"

text \<open>
  \<^verbatim>\<open>createSession\<close>. The new row gets the identifier \<open>new_id\<close> that the database
  generates, which the primary key requires to be a fresh one, and the table's
  \<^verbatim>\<open>CHECK (planned_duration >= 1)\<close> rejects the insert of a smaller duration. The
  service itself does not look at the duration.
\<close>

definition createSession :: "world \<Rightarrow> int \<Rightarrow> string \<Rightarrow> create_session_data \<Rightarrow> error + focus_session \<times> world" where
  "createSession w now new_id data =
     (let task_ok = (case data_taskId data of
                       None \<Rightarrow> True
                     | Some t \<Rightarrow>
                         (case tasks (db w) t of
                            None \<Rightarrow> False
                          | Some tk \<Rightarrow> task_userId tk = data_userId data))
      in if \<not> task_ok then Inl (Error ''Task not found or access denied'')
         else (case (case data_moduleConfigurationId data of
                       None \<Rightarrow> Inr (Num 0)
                     | Some c \<Rightarrow>
                         (case validateModuleConfiguration (db w) c (data_userId data) of
                            Inl e \<Rightarrow> Inl e
                          | Inr preset \<Rightarrow> Inr (dopamineGenerationRate preset))) of
                 Inl e \<Rightarrow> Inl e
               | Inr rate \<Rightarrow>
                   if data_plannedDuration data < 1 \<or> focusSessions (db w) new_id \<noteq> None
                   then Inl (DatabaseError ''insert into focus_sessions'')
                   else let session =
                              \<lparr>session_id = new_id, userId = data_userId data,
                               taskId = data_taskId data, task = None, startTime = now,
                               endTime = None, plannedDuration = data_plannedDuration data,
                               actualDuration = None, status = planned,
                               energyGenerated = None, dopamineGenerated = None,
                               moduleConfigurationId = data_moduleConfigurationId data,
                               interruptionCount = 0\<rparr>
                        in Inr (session,
                                w\<lparr>db := (db w)\<lparr>focusSessions := (focusSessions (db w))(new_id \<mapsto> session)\<rparr>,
                                  redis := redis_setex (redis w) now (session_key new_id)
                                             (data_plannedDuration data * 60)
                                             \<lparr>cached = session,
                                              cached_dopamineGenerationRate = Some rate\<rparr>\<rparr>)))"

text \<open>
  \<^verbatim>\<open>startSession\<close>. The cache entry is written again, from the updated row alone: the
  document has no \<^verbatim>\<open>dopamineGenerationRate\<close>.
\<close>

definition startSession :: "world \<Rightarrow> int \<Rightarrow> string \<Rightarrow> string \<Rightarrow> error + focus_session \<times> world" where
  "startSession w now sessionId user =
     (case validateSessionAccess (db w) sessionId user of
        Inl e \<Rightarrow> Inl e
      | Inr session \<Rightarrow>
          if status session \<noteq> planned
          then Inl (Error ''Session can only be started from planned status'')
          else let updatedSession = session\<lparr>status := active, startTime := now\<rparr>
               in Inr (updatedSession,
                       w\<lparr>db := (db w)\<lparr>focusSessions := (focusSessions (db w))(sessionId \<mapsto> updatedSession)\<rparr>,
                         redis := redis_setex (redis w) now (session_key sessionId)
                                    (plannedDuration updatedSession * 60)
                                    \<lparr>cached = updatedSession,
                                     cached_dopamineGenerationRate = None\<rparr>\<rparr>))"

definition updateTaskCompletion :: "database \<Rightarrow> int \<Rightarrow> string \<Rightarrow> bool \<times> database" where
  "updateTaskCompletion d now t =
     (case tasks d t of
        None \<Rightarrow> (False, d)
      | Some tk \<Rightarrow>
          if task_status tk \<noteq> task_completed
          then (True, d\<lparr>tasks := (tasks d)(t \<mapsto> tk\<lparr>task_status := task_completed,
                                                    completedAt := Some now\<rparr>)\<rparr>)
          else (False, d))"

text \<open>
  \<^verbatim>\<open>completeSession\<close>. The session row is updated before the rewards are credited and
  outside the ledger's transaction, so when \<^verbatim>\<open>processSessionRewards\<close> throws the session
  stays completed: the result pairs the outcome with the world that the call leaves.
  \<^verbatim>\<open>actualDuration || ...\<close> takes the elapsed whole minutes when the argument is
  absent or 0.
\<close>

definition completeSession :: "world \<Rightarrow> int \<Rightarrow> string \<Rightarrow> string \<Rightarrow> int option \<Rightarrow> (error + completion_result) \<times> world" where
  "completeSession w now sessionId user actual =
     (case validateSessionAccess (db w) sessionId user of
        Inl e \<Rightarrow> (Inl e, w)
      | Inr session \<Rightarrow>
          if status session \<noteq> active
          then (Inl (Error ''Only active sessions can be completed''), w)
          else let endTime' = now;
                   elapsed = (endTime' - startTime session) div 1000 div 60;
                   duration = (case actual of
                                 None \<Rightarrow> elapsed
                               | Some a \<Rightarrow> if a \<noteq> 0 then a else elapsed);
                   energy = calculateEnergyEarned session duration;
                   dopamine = calculateDopamineEarned (redis w) now session duration;
                   updatedSession = session\<lparr>status := completed, endTime := Some endTime',
                                             actualDuration := Some duration,
                                             energyGenerated := Some energy,
                                             dopamineGenerated := Some dopamine\<rparr>;
                   d1 = (db w)\<lparr>focusSessions := (focusSessions (db w))(sessionId \<mapsto> updatedSession)\<rparr>
               in (case processSessionRewards d1 user energy dopamine sessionId of
                     Inl e \<Rightarrow> (Inl e, w\<lparr>db := d1\<rparr>)
                   | Inr d2 \<Rightarrow>
                       let (done, d3) = (case taskId session of
                                           None \<Rightarrow> (False, d2)
                                         | Some t \<Rightarrow> updateTaskCompletion d2 now t)
                       in (Inr \<lparr>result_session = updatedSession, energyEarned = energy,
                                 dopamineEarned = dopamine, taskCompleted = done\<rparr>,
                           \<lparr>db = d3, redis = redis_del (redis w) (session_key sessionId)\<rparr>)))"

text \<open>
  The route \<^verbatim>\<open>POST /\<close> of the focus-sessions router. Its validation chain is
  \<^verbatim>\<open>body('plannedDuration').isInt({ min: 1, max: 120 })\<close>, the bound that the OpenAPI
  schema \<^verbatim>\<open>CreateFocusSessionRequest\<close> states as well; the identifiers of the body are
  UUIDs by their type here. A request that fails validation does not reach the service.
\<close>

record create_request =
  body_taskId :: "string option"
  body_plannedDuration :: int
  body_moduleConfigurationId :: "string option"

definition isInt_plannedDuration :: "int \<Rightarrow> bool" where
  "isInt_plannedDuration n \<longleftrightarrow> 1 \<le> n \<and> n \<le> 120"

definition post_focus_sessions :: "world \<Rightarrow> int \<Rightarrow> string \<Rightarrow> string \<Rightarrow> create_request \<Rightarrow> error + focus_session \<times> world" where
  "post_focus_sessions w now new_id user body =
     (if \<not> isInt_plannedDuration (body_plannedDuration body)
      then Inl (ValidationError ''plannedDuration'')
      else createSession w now new_id
             \<lparr>data_userId = user, data_taskId = body_taskId body,
              data_plannedDuration = body_plannedDuration body,
              data_moduleConfigurationId = body_moduleConfigurationId body\<rparr>)"

section \<open>Sequences of completions\<close>

text \<open>
  The calls of \<^verbatim>\<open>completeSession\<close> of a run, one after the other, each with its time, the
  session, the caller and the optional \<^verbatim>\<open>actualDuration\<close>; a call that throws leaves the
  writes it made before.
\<close>

fun complete_all :: "world \<Rightarrow> (int \<times> string \<times> string \<times> int option) list \<Rightarrow> world" where
  "complete_all w [] = w"
| "complete_all w ((now, sessionId, user, actual) # calls) =
     complete_all (snd (completeSession w now sessionId user actual)) calls"

text \<open>
  The generation rates of the cached sessions, and those of the presets they are read from
  (\<^verbatim>\<open>dopamine_generation_rate DECIMAL(10,2) CHECK (dopamine_generation_rate >= 0)\<close>),
  are not negative.
\<close>

definition rates_not_negative :: "redis \<Rightarrow> bool" where
  "rates_not_negative r \<longleftrightarrow>
     (\<forall>key cs t x. r key = Some (cs, t) \<longrightarrow> cached_dopamineGenerationRate cs = Some (Num x) \<longrightarrow> 0 \<le> x)"

definition presets_not_negative :: "database \<Rightarrow> bool" where
  "presets_not_negative d \<longleftrightarrow>
     (\<forall>c p x. modulePresets d c = Some p \<longrightarrow> dopamineGenerationRate p = Num x \<longrightarrow> 0 \<le> x)"

text \<open>A number that is at most \<open>- c\<close>.\<close>

definition below :: "rat \<Rightarrow> number \<Rightarrow> bool" where
  "below c n \<longleftrightarrow> (\<exists>x. n = Num x \<and> x \<le> - c)"

section \<open>Example inputs\<close>

definition example_task :: "string \<Rightarrow> task" where
  "example_task c =
     \<lparr>task_userId = ''u1'', category = c, task_status = in_progress, completedAt = None\<rparr>"

definition example_session :: "task option \<Rightarrow> int \<Rightarrow> focus_session" where
  "example_session t k =
     \<lparr>session_id = ''s1'', userId = ''u1'',
      taskId = (case t of None \<Rightarrow> None | Some _ \<Rightarrow> Some ''t1''),
      task = t, startTime = 0, endTime = None, plannedDuration = 25, actualDuration = None,
      status = active, energyGenerated = None, dopamineGenerated = None,
      moduleConfigurationId = None, interruptionCount = k\<rparr>"

definition example_balance :: "rat \<Rightarrow> rat \<Rightarrow> balance_row" where
  "example_balance e a =
     \<lparr>energy_balance = Num e, dopamine_balance = Num a,
      total_energy_earned = Num e, total_dopamine_earned = Num a\<rparr>"

definition example_db :: "balance_row \<Rightarrow> currency_transaction list \<Rightarrow> database" where
  "example_db b txs =
     \<lparr>tasks = Map.empty, modulePresets = Map.empty, userModules = [],
      focusSessions = Map.empty, user_currency_balances = [''u1'' \<mapsto> b],
      currency_transactions = txs\<rparr>"

definition then_credit :: "error + database \<Rightarrow> string \<Rightarrow> number \<Rightarrow> number \<Rightarrow> string \<Rightarrow> error + database" where
  "then_credit r user energyAmount dopamineAmount sessionId =
     (case r of
        Inl e \<Rightarrow> Inl e
      | Inr d \<Rightarrow> processSessionRewards d user energyAmount dopamineAmount sessionId)"

definition balance_of :: "error + database \<Rightarrow> string \<Rightarrow> balance_row option" where
  "balance_of r user = (case r of Inl e \<Rightarrow> None | Inr d \<Rightarrow> user_currency_balances d user)"

definition transactions_of :: "error + database \<Rightarrow> currency_transaction list option" where
  "transactions_of r = (case r of Inl e \<Rightarrow> None | Inr d \<Rightarrow> Some (currency_transactions d))"



definition example_preset :: module_preset where
  "example_preset =
     \<lparr>preset_userId = ''u1'', isActive = True, configuration = [],
      dopamineGenerationRate = lit (5 / 100)\<rparr>"

definition example_empty_world :: world where
  "example_empty_world =
     \<lparr>db = (example_db (example_balance 100 5) [])\<lparr>modulePresets := [''c1'' \<mapsto> example_preset]\<rparr>,
      redis = Map.empty\<rparr>"

definition example_data :: create_session_data where
  "example_data =
     \<lparr>data_userId = ''u1'', data_taskId = None, data_plannedDuration = 25,
      data_moduleConfigurationId = Some ''c1''\<rparr>"

text \<open>The world after the session \<open>s1\<close> was created at time 0 and started one second later.\<close>

definition example_started_world :: world where
  "example_started_world =
     (case createSession example_empty_world 0 ''s1'' example_data of
        Inl e \<Rightarrow> example_empty_world
      | Inr (s, w) \<Rightarrow>
          (case startSession w 1000 ''s1'' ''u1'' of
             Inl e \<Rightarrow> w
           | Inr (s', w') \<Rightarrow> w'))"

definition example_started_session :: focus_session where
  "example_started_session =
     \<lparr>session_id = ''s1'', userId = ''u1'', taskId = None, task = None, startTime = 1000,
      endTime = None, plannedDuration = 25, actualDuration = None, status = active,
      energyGenerated = None, dopamineGenerated = None,
      moduleConfigurationId = Some ''c1'', interruptionCount = 0\<rparr>"

definition example_created_world :: world where
  "example_created_world =
     (case createSession example_empty_world 0 ''s1'' example_data of
        Inl e \<Rightarrow> example_empty_world
      | Inr (s, w) \<Rightarrow> w)"

section \<open>Properties of the rounding to doubles\<close>

lemma bit_length_bounds:
  "0 < n \<Longrightarrow> (2::nat) ^ (bit_length n - 1) \<le> n \<and> n < 2 ^ bit_length n"
proof (induction n rule: bit_length.induct)
  case (1 n)
  show ?case
  proof (cases "n div 2 = 0")
    case True
    with "1.prems" have "n = 1" by presburger
    then show ?thesis by (simp add: bit_length.simps)
  next
    case False
    then have pos: "0 < n div 2" by simp
    from "1.IH" "1.prems" pos
    have ih: "(2::nat) ^ (bit_length (n div 2) - 1) \<le> n div 2" "n div 2 < 2 ^ bit_length (n div 2)"
      by auto
    have bl: "bit_length n = Suc (bit_length (n div 2))"
      using "1.prems" by (subst bit_length.simps) simp
    have blpos: "0 < bit_length (n div 2)"
      using pos by (subst bit_length.simps) simp
    then obtain k where k: "bit_length (n div 2) = Suc k"
      by (cases "bit_length (n div 2)") auto
    from ih have "(2::nat) ^ k \<le> n div 2" "n div 2 < 2 * 2 ^ k"
      by (simp_all add: k)
    then have "2 * (2::nat) ^ k \<le> n" "n < 2 * (2 * 2 ^ k)"
      by linarith+
    then show ?thesis by (simp add: bl k)
  qed
qed

lemma pow2_pos: "0 < pow2 e"
  by (simp add: pow2_def)

lemma pow2_powi: "pow2 e = 2 powi e"
  by (simp add: pow2_def power_int_def power_one_over [symmetric])

lemma pow2_add: "pow2 (a + b) = pow2 a * pow2 b"
  by (simp add: pow2_powi power_int_add)

lemma pow2_mono: "a \<le> b \<Longrightarrow> pow2 a \<le> pow2 b"
  by (simp add: pow2_powi power_int_increasing)

lemma pow2_strict_mono: "a < b \<Longrightarrow> pow2 a < pow2 b"
  by (simp add: pow2_powi power_int_strict_increasing)

lemma pow2_nat: "pow2 (int n) = 2 ^ n"
  by (simp add: pow2_def)

lemma pow2_Suc: "pow2 (e + 1) = 2 * pow2 e"
  using pow2_add [of e 1] by (simp add: pow2_def)

lemma binary_exponent_bounds:
  assumes "0 < a"
  shows "pow2 (binary_exponent a) \<le> a \<and> a < pow2 (binary_exponent a + 1)"
proof (cases "1 \<le> a")
  case True
  define n where "n = nat \<lfloor>a\<rfloor>"
  have npos: "0 < n" using True by (simp add: n_def)
  have e: "binary_exponent a = int (bit_length n) - 1"
    using True by (simp add: binary_exponent_def n_def)
  have blpos: "0 < bit_length n"
    using npos by (subst bit_length.simps) simp
  have nfl: "(of_nat n :: rat) = of_int \<lfloor>a\<rfloor>"
    using True by (simp add: n_def)
  have lo: "(of_nat n :: rat) \<le> a" and hi: "a < of_nat n + 1"
    unfolding nfl by linarith+
  from bit_length_bounds [OF npos]
  have b1: "(2::nat) ^ (bit_length n - 1) \<le> n" and b2: "n + 1 \<le> 2 ^ bit_length n"
    by auto
  have "pow2 (int (bit_length n) - 1) = 2 ^ (bit_length n - 1)"
    using blpos pow2_nat [of "bit_length n - 1"] by (simp add: of_nat_diff)
  also have "\<dots> = of_nat (2 ^ (bit_length n - 1))" by simp
  also have "\<dots> \<le> of_nat n" using b1 of_nat_le_iff by blast
  finally have l: "pow2 (binary_exponent a) \<le> a" using lo e by simp
  have "of_nat n + 1 = (of_nat (n + 1) :: rat)" by simp
  also have "\<dots> \<le> of_nat (2 ^ bit_length n)" using b2 of_nat_le_iff by blast
  also have "\<dots> = pow2 (int (bit_length n))" by (simp add: pow2_nat)
  finally have "a < pow2 (binary_exponent a + 1)" using hi e by simp
  with l show ?thesis by simp
next
  case False
  define c where "c = \<lceil>1 / a\<rceil>"
  define n where "n = nat (c - 1)"
  have inv: "1 < 1 / a" using False assms by simp
  have c2: "2 \<le> c" using inv by (simp add: c_def le_ceiling_iff)
  have npos: "0 < n" using c2 by (simp add: n_def)
  have e: "binary_exponent a = - int (bit_length n)"
    using False by (simp add: binary_exponent_def n_def c_def)
  have up: "1 / a \<le> of_nat n + 1"
  proof -
    have "1 / a \<le> of_int c" by (simp add: c_def)
    also have "of_int c = (of_nat n + 1 :: rat)" using c2 by (simp add: n_def)
    finally show ?thesis .
  qed
  have low: "of_nat n < 1 / a"
  proof -
    have "of_int (c - 1) < 1 / a" unfolding c_def by linarith
    moreover have "(of_int (c - 1) :: rat) = of_nat n" using c2 by (simp add: n_def)
    ultimately show ?thesis by simp
  qed
  from bit_length_bounds [OF npos]
  have b1: "(2::nat) ^ (bit_length n - 1) \<le> n" and b2: "n + 1 \<le> 2 ^ bit_length n"
    by auto
  have blpos: "0 < bit_length n"
    using npos by (subst bit_length.simps) simp
  have "1 / a \<le> of_nat (n + 1)" using up by simp
  also have "\<dots> \<le> of_nat (2 ^ bit_length n)" using b2 of_nat_le_iff by blast
  finally have "1 / a \<le> 2 ^ bit_length n" by simp
  then have "1 / 2 ^ bit_length n \<le> a"
    using assms by (simp add: field_simps)
  moreover have "pow2 (- int (bit_length n)) = 1 / 2 ^ bit_length n"
    by (simp add: pow2_def)
  ultimately have l: "pow2 (binary_exponent a) \<le> a" using e by simp
  have "(2::rat) ^ (bit_length n - 1) = of_nat (2 ^ (bit_length n - 1))" by simp
  also have "\<dots> \<le> of_nat n" using b1 of_nat_le_iff by blast
  also have "\<dots> < 1 / a" by (rule low)
  finally have "a < 1 / 2 ^ (bit_length n - 1)"
    using assms by (simp add: field_simps)
  moreover have "pow2 (- int (bit_length n) + 1) = 1 / 2 ^ (bit_length n - 1)"
  proof -
    obtain k where k: "bit_length n = Suc k" using blpos by (cases "bit_length n") auto
    show ?thesis by (simp add: k pow2_def)
  qed
  ultimately have "a < pow2 (binary_exponent a + 1)" using e by simp
  with l show ?thesis by simp
qed

lemma binary_exponent_unique:
  assumes "pow2 e \<le> a" "a < pow2 (e + 1)"
  shows "binary_exponent a = e"
proof -
  have apos: "0 < a" using assms(1) pow2_pos [of e] by linarith
  note b = binary_exponent_bounds [OF apos]
  show ?thesis
  proof (rule ccontr)
    assume ne: "binary_exponent a \<noteq> e"
    then consider "binary_exponent a + 1 \<le> e" | "e + 1 \<le> binary_exponent a" by linarith
    then show False
    proof cases
      case 1
      then have "pow2 (binary_exponent a + 1) \<le> pow2 e" by (rule pow2_mono)
      with b assms show False by linarith
    next
      case 2
      then have "pow2 (e + 1) \<le> pow2 (binary_exponent a)" by (rule pow2_mono)
      with b assms show False by linarith
    qed
  qed
qed

lemma round_half_even_near:
  assumes "\<bar>m - of_int n\<bar> < 1 / 2"
  shows "round_half_even m = n"
proof -
  have "of_int (n - 1) \<le> m" "m < of_int (n + 1)"
    using assms unfolding abs_less_iff by (simp; linarith)+
  then have "n - 1 \<le> \<lfloor>m\<rfloor>" "\<lfloor>m\<rfloor> < n + 1"
    using le_floor_iff [of "n - 1" m] floor_less_iff [of m "n + 1"] by blast+
  then have fl: "\<lfloor>m\<rfloor> = n \<or> \<lfloor>m\<rfloor> = n - 1"
    by linarith
  show ?thesis
  proof (cases "\<lfloor>m\<rfloor> = n")
    case True
    have r: "m - of_int \<lfloor>m\<rfloor> < 1 / 2"
      using assms True unfolding abs_less_iff by linarith
    show ?thesis
      unfolding round_half_even_def Let_def using r True by (simp only: if_True)
  next
    case False
    with fl have f: "\<lfloor>m\<rfloor> = n - 1" by simp
    have "- (1 / 2) < m - of_int n"
      using assms unfolding abs_less_iff by linarith
    then have r: "1 / 2 < m - of_int \<lfloor>m\<rfloor>"
      unfolding f by simp
    then have nr: "\<not> m - of_int \<lfloor>m\<rfloor> < 1 / 2" by linarith
    have "round_half_even m = \<lfloor>m\<rfloor> + 1"
      unfolding round_half_even_def Let_def using r nr by (simp only: if_True if_False)
    then show ?thesis using f by simp
  qed
qed

lemma round_half_even_error: "\<bar>of_int (round_half_even m) - m\<bar> \<le> 1 / 2"
proof -
  have "of_int \<lfloor>m\<rfloor> \<le> m" "m < of_int \<lfloor>m\<rfloor> + 1" by linarith+
  then show ?thesis
    by (auto simp: round_half_even_def Let_def abs_le_iff)
qed

lemma round_to_double_uminus: "round_to_double (- x) = - round_to_double x"
  by (simp add: round_to_double_def Let_def sgn_minus)

lemma round_to_double_pos:
  assumes "0 < x"
  shows "round_to_double x =
    of_int (round_half_even (x / pow2 (max (binary_exponent x) (- 1022) - 52)))
      * pow2 (max (binary_exponent x) (- 1022) - 52)"
  using assms by (simp add: round_to_double_def Let_def)

text \<open>Evaluating a rounding from its exponent and significand.\<close>

lemma round_to_double_eq:
  assumes "pow2 e \<le> x" "x < pow2 (e + 1)" "- 1022 \<le> e"
    and "\<bar>x / pow2 (e - 52) - of_int n\<bar> < 1 / 2"
  shows "round_to_double x = of_int n * pow2 (e - 52)"
proof -
  have xpos: "0 < x" using assms(1) pow2_pos [of e] by linarith
  have e: "binary_exponent x = e" using assms(1,2) by (rule binary_exponent_unique)
  have m: "max (binary_exponent x) (- 1022) = e" using e assms(3) by simp
  show ?thesis
    unfolding round_to_double_pos [OF xpos] m round_half_even_near [OF assms(4)] ..
qed

lemma round_to_double_error:
  assumes "pow2 (- 1022) \<le> x"
  shows "\<bar>round_to_double x - x\<bar> \<le> x / 2 ^ 53"
proof -
  have xpos: "0 < x" using assms pow2_pos [of "- 1022"] by linarith
  define e where "e = binary_exponent x"
  note b = binary_exponent_bounds [OF xpos, folded e_def]
  have ege: "- 1022 \<le> e"
  proof (rule ccontr)
    assume "\<not> - 1022 \<le> e"
    then have "e + 1 \<le> - 1022" by simp
    then have "pow2 (e + 1) \<le> pow2 (- 1022)" by (rule pow2_mono)
    with b assms show False by linarith
  qed
  define q where "q = pow2 (e - 52)"
  have qpos: "0 < q" by (simp add: q_def pow2_pos)
  have r: "round_to_double x = of_int (round_half_even (x / q)) * q"
    using ege by (simp add: round_to_double_pos [OF xpos] e_def [symmetric] q_def max_def)
  have "round_to_double x - x = (of_int (round_half_even (x / q)) - x / q) * q"
    using qpos by (simp add: r field_simps)
  then have "\<bar>round_to_double x - x\<bar> = \<bar>of_int (round_half_even (x / q)) - x / q\<bar> * q"
    using qpos by (simp add: abs_mult)
  also have "\<dots> \<le> 1 / 2 * q"
    using round_half_even_error [of "x / q"] qpos by (simp add: mult_right_mono)
  also have "1 / 2 * q = pow2 e / 2 ^ 53"
  proof -
    have "pow2 (e - 52) = pow2 e * pow2 (- 52)" using pow2_add [of e "- 52"] by simp
    then show ?thesis by (simp add: q_def pow2_def)
  qed
  also have "\<dots> \<le> x / 2 ^ 53" using b by (simp add: divide_right_mono)
  finally show ?thesis .
qed

lemma round_to_double_representable_pos:
  assumes "0 < n" "n < 2 ^ 53" "- 1074 \<le> k"
  shows "round_to_double (of_int n * pow2 k) = of_int n * pow2 k"
proof -
  define x where "x = of_int n * pow2 k"
  have xpos: "0 < x" using assms(1) pow2_pos [of k] by (simp add: x_def)
  define e where "e = max (binary_exponent x) (- 1022)"
  have ele: "e \<le> k + 52"
  proof (cases "binary_exponent x \<le> - 1022")
    case True
    then show ?thesis using assms(3) by (simp add: e_def)
  next
    case False
    then have ee: "e = binary_exponent x" by (simp add: e_def)
    have "pow2 e \<le> x" using binary_exponent_bounds [OF xpos] ee by simp
    moreover have "x < pow2 (k + 53)"
    proof -
      have "(of_int n :: rat) < 2 ^ 53" using assms(2) of_int_less_iff [of n "2 ^ 53", where ?'a = rat] by simp
      then have "x < 2 ^ 53 * pow2 k" using pow2_pos [of k] by (simp add: x_def)
      moreover have "pow2 (k + 53) = pow2 k * 2 ^ 53" using pow2_add [of k 53] by (simp add: pow2_def)
      ultimately show ?thesis by (simp add: mult.commute)
    qed
    ultimately have "pow2 e < pow2 (k + 53)" by linarith
    then have "e < k + 53"
      using pow2_mono [of "k + 53" e] by (cases "e < k + 53") auto
    then show ?thesis by simp
  qed
  define j where "j = nat (k + 52 - e)"
  have kj: "k = (e - 52) + int j" using ele by (simp add: j_def)
  have pk: "pow2 k = pow2 (e - 52) * 2 ^ j"
    by (subst kj, subst pow2_add) (simp add: pow2_nat)
  have "x / pow2 (e - 52) = of_int (n * 2 ^ j)"
    using pow2_pos [of "e - 52"] by (simp add: x_def pk)
  then have "round_half_even (x / pow2 (e - 52)) = n * 2 ^ j"
    using round_half_even_near [of "x / pow2 (e - 52)" "n * 2 ^ j"] by simp
  then have "round_to_double x = of_int (n * 2 ^ j) * pow2 (e - 52)"
    by (simp add: round_to_double_pos [OF xpos] e_def [symmetric])
  also have "\<dots> = x" by (simp add: x_def pk)
  finally show ?thesis by (simp add: x_def)
qed

lemma round_to_double_of_int:
  assumes "\<bar>i\<bar> < 2 ^ 53"
  shows "round_to_double (of_int i) = of_int i"
proof -
  have p: "round_to_double (of_int n) = of_int n" if "0 < n" "n < 2 ^ 53" for n :: int
    using round_to_double_representable_pos [OF that, of 0] by (simp add: pow2_def)
  consider "i = 0" | "0 < i" | "i < 0" by linarith
  then show ?thesis
  proof cases
    case 1
    then show ?thesis by (simp add: round_to_double_def)
  next
    case 2
    then show ?thesis using p [of i] assms by simp
  next
    case 3
    then have "round_to_double (of_int (- i)) = of_int (- i)" using p [of "- i"] assms by simp
    then show ?thesis using round_to_double_uminus [of "of_int i"] by simp
  qed
qed

lemma round_to_double_numeral [simp]:
  "(numeral w :: int) < 2 ^ 53 \<Longrightarrow> round_to_double (numeral w) = numeral w"
  using round_to_double_of_int [of "numeral w"] by simp

lemma round_to_double_0 [simp]: "round_to_double 0 = 0"
  by (simp add: round_to_double_def)

lemma round_to_double_1 [simp]: "round_to_double 1 = 1"
  using round_to_double_of_int [of 1] by simp

lemma floor_rat_numeral [simp]:
  "\<lfloor>numeral a / numeral b :: rat\<rfloor> = numeral a div numeral b"
  by (metis floor_divide_of_int_eq of_int_numeral)

lemma round_half_even_nonneg: "0 \<le> m \<Longrightarrow> 0 \<le> round_half_even m"
  by (auto simp: round_half_even_def Let_def)

lemma round_to_double_nonneg: "0 \<le> x \<Longrightarrow> 0 \<le> round_to_double x"
proof (cases "x = 0")
  case True
  then show ?thesis by simp
next
  case False
  assume "0 \<le> x"
  with False have xpos: "0 < x" by simp
  define q where "q = pow2 (max (binary_exponent x) (- 1022) - 52)"
  have qpos: "0 < q" by (simp add: q_def pow2_pos)
  have "0 \<le> x / q" using xpos qpos by simp
  then have "0 \<le> round_half_even (x / q)" by (rule round_half_even_nonneg)
  then have "0 \<le> of_int (round_half_even (x / q)) * q" using qpos by simp
  then show ?thesis by (simp add: round_to_double_pos [OF xpos] q_def)
qed

section \<open>Energy: the formula in double arithmetic\<close>

text \<open>
  C4. One minute of a learning task with one interruption: the specification's formula
  gives 1 * 1.15 * 0.9 = 1.035, half-up 1.04. In doubles the product times 100 is
  103.49999999999998..., which \<^verbatim>\<open>Math.round\<close> takes down to 103, so the code
  returns 1.03. Scenario A (25 minutes, analytical, no interruption) gives 33 in both.
\<close>

theorem calculateEnergyEarned_rounds_below_half_up:
  "calculateEnergyEarned (example_session (Some (example_task ''learning'')) 1) 1 = lit (103 / 100)
   \<and> spec_energy 1 1 (Some ''learning'') = 104 / 100
   \<and> lit (103 / 100) \<noteq> lit (104 / 100)
   \<and> calculateEnergyEarned (example_session (Some (example_task ''analytical'')) 0) 25 = Num 33
   \<and> spec_energy 25 0 (Some ''analytical'') = 33"
proof -
  have r1: "round_to_double (23 / 20) = 2589569785738035 / 2251799813685248"
    using round_to_double_eq [of 0 "23 / 20" 5179139571476070] by (simp add: pow2_def)
  have r2: "round_to_double (2589569785738035 / 2251799813685248) = 2589569785738035 / 2251799813685248"
    using round_to_double_eq [of 0 "2589569785738035 / 2251799813685248" 5179139571476070] by (simp add: pow2_def)
  have r3: "round_to_double (1 / 10) = 3602879701896397 / 36028797018963968"
    using round_to_double_eq [of "- 4" "1 / 10" 7205759403792794] by (simp add: pow2_def)
  have r4: "round_to_double (3602879701896397 / 36028797018963968) = 3602879701896397 / 36028797018963968"
    using round_to_double_eq [of "- 4" "3602879701896397 / 36028797018963968" 7205759403792794] by (simp add: pow2_def)
  have r5: "round_to_double (32425917317067571 / 36028797018963968) = 8106479329266893 / 9007199254740992"
    using round_to_double_eq [of "- 1" "32425917317067571 / 36028797018963968" 8106479329266893] by (simp add: pow2_def)
  have r6: "round_to_double (1 / 2) = 1 / 2"
    using round_to_double_eq [of "- 1" "1 / 2" 4503599627370496] by (simp add: pow2_def)
  have r7: "round_to_double (20992293939779477785403496375255 / 20282409603651670423947251286016) = 4661225614328463 / 4503599627370496"
    using round_to_double_eq [of 0 "20992293939779477785403496375255 / 20282409603651670423947251286016" 4661225614328463] by (simp add: pow2_def)
  have r8: "round_to_double (116530640358211575 / 1125899906842624) = 7283165022388223 / 70368744177664"
    using round_to_double_eq [of 6 "116530640358211575 / 1125899906842624" 7283165022388223] by (simp add: pow2_def)
  have r9: "round_to_double (103 / 100) = 4638707616191611 / 4503599627370496"
    using round_to_double_eq [of 0 "103 / 100" 4638707616191611] by (simp add: pow2_def)
  have r10: "round_to_double (26 / 25) = 1170935903116329 / 1125899906842624"
    using round_to_double_eq [of 0 "26 / 25" 4683743612465316] by (simp add: pow2_def)
  have r11: "round_to_double (6 / 5) = 5404319552844595 / 4503599627370496"
    using round_to_double_eq [of 0 "6 / 5" 5404319552844595] by (simp add: pow2_def)
  have r12: "round_to_double (135107988821114875 / 4503599627370496) = 30"
    using round_to_double_eq [of 4 "135107988821114875 / 4503599627370496" 8444249301319680] by (simp add: pow2_def)
  have r13: "round_to_double (11 / 10) = 2476979795053773 / 2251799813685248"
    using round_to_double_eq [of 0 "11 / 10" 4953959590107546] by (simp add: pow2_def)
  have r14: "round_to_double (37154696925806595 / 1125899906842624) = 33"
    using round_to_double_eq [of 5 "37154696925806595 / 1125899906842624" 4644337115725824] by (simp add: pow2_def)
  have r15: "round_to_double 3300 = 3300"
    using round_to_double_eq [of 11 "3300" 7256776743321600] by (simp add: pow2_def)
  note rs = r1 r2 r3 r4 r5 r6 r7 r8 r9 r10 r11 r12 r13 r14 r15
  have a: "calculateEnergyEarned (example_session (Some (example_task ''learning'')) 1) 1 = lit (103 / 100)"
    by (simp add: calculateEnergyEarned_def example_session_def example_task_def category_bonus_def
        categoryBonuses_def lit_def number_of_int_def rs)
  have b: "spec_energy 1 1 (Some ''learning'') = 104 / 100"
    by (simp add: spec_energy_def spec_category_multiplier_def round_half_up_def)
  have c: "lit (103 / 100) \<noteq> lit (104 / 100)"
    by (simp add: lit_def rs)
  have d: "calculateEnergyEarned (example_session (Some (example_task ''analytical'')) 0) 25 = Num 33"
    by (simp add: calculateEnergyEarned_def example_session_def example_task_def category_bonus_def
        categoryBonuses_def lit_def number_of_int_def rs)
  have e: "spec_energy 25 0 (Some ''analytical'') = 33"
    by (simp add: spec_energy_def spec_category_multiplier_def round_half_up_def)
  from a b c d e show ?thesis by blast
qed

section \<open>Ledger: what a credit writes\<close>

lemma processSessionRewards_Inr:
  assumes "processSessionRewards d u e a s = Inr d'"
  obtains b where "user_currency_balances d u = Some b"
    and "\<not> js_less e (Num 0)"
    and "\<not> js_greater (js_plus (to_js (energy_balance b)) e) (Num ENERGY_MAX_BALANCE)"
    and "balance_checks (update_balances_set b e a)"
    and "d' = d\<lparr>user_currency_balances := (user_currency_balances d)(u \<mapsto> update_balances_set b e a),
                 currency_transactions :=
                   currency_transactions d @ log_currency_transaction u b (update_balances_set b e a)\<rparr>"
  using assms
  by (auto simp: processSessionRewards_def getBalancesWithLock_def update_user_currency_balances_def
      Let_def split: option.splits if_splits sum.splits)

lemmas ledger_defs = processSessionRewards_def getBalancesWithLock_def
  update_user_currency_balances_def update_balances_set_def balance_checks_def
  log_currency_transaction_def ENERGY_MAX_BALANCE_def js_greater_def Let_def

lemmas example_defs = example_db_def example_balance_def then_credit_def balance_of_def
  transactions_of_def










subsection \<open>Lifetime totals\<close>

lemma sql_le_refl: "sql_le t t"
  by (cases t) simp_all

lemma sql_le_trans: "sql_le a b \<Longrightarrow> sql_le b c \<Longrightarrow> sql_le a c"
  by (cases a; cases b; cases c) simp_all

lemma sql_le_plus_energy: "\<not> js_less e (Num 0) \<Longrightarrow> sql_le t (sql_plus t e)"
  by (cases t; cases e) simp_all

lemma sql_le_plus_dopamine: "sql_le (Num 0) a \<Longrightarrow> sql_le t (sql_plus t a)"
  by (cases t; cases a) simp_all

lemma processSessionRewards_totals:
  assumes "processSessionRewards d u e a s = Inr d'" and "sql_le (Num 0) a"
    and "user_currency_balances d v = Some b"
  shows "\<exists>b'. user_currency_balances d' v = Some b'
           \<and> sql_le (total_energy_earned b) (total_energy_earned b')
           \<and> sql_le (total_dopamine_earned b) (total_dopamine_earned b')"
  using assms
  by (elim processSessionRewards_Inr)
     (auto simp: update_balances_set_def sql_le_refl sql_le_plus_energy sql_le_plus_dopamine)



text \<open>
  The hypothesis on the dopamine amounts is needed, since the ledger checks the sign of
  the energy amount only.
\<close>

lemma negative_dopamine_amount_lowers_total:
  "user_currency_balances (credit_all (example_db (example_balance 100 5) []) [(''u1'', Num 0, Num (- 3), ''s1'')]) ''u1''
     = Some (example_balance 100 2)"
  by (simp add: ledger_defs example_defs)

text \<open>
  The dopamine amount of a session reward is not negative: for a non-negative duration
  and a cached rate that is not negative, \<^verbatim>\<open>calculateDopamineEarned\<close> returns 0, a
  positive number or \<open>NaN\<close>.
\<close>

lemma calculateDopamineEarned_nonneg:
  assumes "0 \<le> duration"
    and "\<And>cs x. redis_get r now (session_key (session_id session)) = Some cs \<Longrightarrow>
           cached_dopamineGenerationRate cs = Some (Num x) \<Longrightarrow> 0 \<le> x"
  shows "sql_le (Num 0) (calculateDopamineEarned r now session duration)"
proof (cases "moduleConfigurationId session")
  case None
  then show ?thesis by (simp add: calculateDopamineEarned_def)
next
  case (Some c)
  show ?thesis
  proof (cases "redis_get r now (session_key (session_id session))")
    case None
    then show ?thesis by (simp add: calculateDopamineEarned_def Some)
  next
    case cs: (Some cs)
    show ?thesis
    proof (cases "cached_dopamineGenerationRate cs")
      case None
      then show ?thesis by (simp add: calculateDopamineEarned_def Some cs)
    next
      case rate: (Some rate)
      show ?thesis
      proof (cases rate)
        case NaN
        then show ?thesis by (simp add: calculateDopamineEarned_def Some cs rate)
      next
        case (Num x)
        from assms(2) [OF cs] rate Num have x: "0 \<le> x" by simp
        have d: "0 \<le> round_to_double (of_int duration)"
          using assms(1) by (intro round_to_double_nonneg) simp
        have p: "0 \<le> round_to_double (x * round_to_double (of_int duration))"
          using x d by (intro round_to_double_nonneg) simp
        have q: "0 \<le> round_to_double (round_to_double (x * round_to_double (of_int duration)) * 10000)"
          using p by (intro round_to_double_nonneg) simp
        have "0 \<le> \<lfloor>round_to_double (round_to_double (x * round_to_double (of_int duration)) * 10000) + 1 / 2\<rfloor>"
          using q by simp
        then have "0 \<le> round_to_double (of_int \<lfloor>round_to_double (round_to_double (x * round_to_double (of_int duration)) * 10000) + 1 / 2\<rfloor> / 10000)"
          by (intro round_to_double_nonneg) simp
        then show ?thesis
          by (simp add: calculateDopamineEarned_def Some cs rate Num number_of_int_def lit_def)
      qed
    qed
  qed
qed

section \<open>Session service\<close>







subsection \<open>Validation of the planned duration\<close>

lemma createSession_not_ValidationError:
  "createSession w now new_id data \<noteq> Inl (ValidationError m)"
  by (auto simp: createSession_def validateModuleConfiguration_def Let_def
      split: option.splits sum.splits if_splits)

text \<open>
  C7 as stated fails: a planned duration of 200 minutes lies between
  \<^verbatim>\<open>MIN_SESSION_DURATION\<close> and \<^verbatim>\<open>MAX_SESSION_DURATION\<close>, and the route rejects it.
\<close>

theorem duration_200_is_rejected:
  "post_focus_sessions example_empty_world 0 ''s1'' ''u1''
     \<lparr>body_taskId = None, body_plannedDuration = 200, body_moduleConfigurationId = None\<rparr>
     = Inl (ValidationError ''plannedDuration'')
   \<and> MIN_SESSION_DURATION \<le> 200 \<and> 200 \<le> MAX_SESSION_DURATION"
  by (simp add: post_focus_sessions_def isInt_plannedDuration_def MIN_SESSION_DURATION_def
      MAX_SESSION_DURATION_def)

text \<open>
  C7, amended. The route that creates a session rejects the request with a validation
  error exactly when the planned duration is below 1 or above 120; every planned duration
  from 1 to 120 passes the validation and reaches \<^verbatim>\<open>createSession\<close>, which (for a
  request without task and configuration, and a fresh row identifier) stores the session
  in the state planned. The constant 480 is not consulted.
\<close>

theorem post_focus_sessions_accepts_1_to_120:
  "(post_focus_sessions w now new_id u body = Inl (ValidationError ''plannedDuration'')
      \<longleftrightarrow> body_plannedDuration body < 1 \<or> 120 < body_plannedDuration body)
   \<and> (1 \<le> body_plannedDuration body \<and> body_plannedDuration body \<le> 120
        \<and> body_taskId body = None \<and> body_moduleConfigurationId body = None
        \<and> focusSessions (db w) new_id = None \<longrightarrow>
        (\<exists>s w'. post_focus_sessions w now new_id u body = Inr (s, w')
           \<and> status s = planned \<and> plannedDuration s = body_plannedDuration body
           \<and> focusSessions (db w') new_id = Some s))"
proof (intro conjI impI)
  show "post_focus_sessions w now new_id u body = Inl (ValidationError ''plannedDuration'')
      \<longleftrightarrow> body_plannedDuration body < 1 \<or> 120 < body_plannedDuration body"
    by (auto simp: post_focus_sessions_def isInt_plannedDuration_def
        createSession_not_ValidationError)
next
  assume "1 \<le> body_plannedDuration body \<and> body_plannedDuration body \<le> 120
        \<and> body_taskId body = None \<and> body_moduleConfigurationId body = None
        \<and> focusSessions (db w) new_id = None"
  then show "\<exists>s w'. post_focus_sessions w now new_id u body = Inr (s, w')
           \<and> status s = planned \<and> plannedDuration s = body_plannedDuration body
           \<and> focusSessions (db w') new_id = Some s"
    by (simp add: post_focus_sessions_def isInt_plannedDuration_def createSession_def Let_def)
qed

theorem post_focus_sessions_accepts_1_to_120_witness:
  "post_focus_sessions example_empty_world 0 ''s1'' ''u1''
     \<lparr>body_taskId = None, body_plannedDuration = 121, body_moduleConfigurationId = None\<rparr>
     = Inl (ValidationError ''plannedDuration'')
   \<and> post_focus_sessions example_empty_world 0 ''s1'' ''u1''
     \<lparr>body_taskId = None, body_plannedDuration = 0, body_moduleConfigurationId = None\<rparr>
     = Inl (ValidationError ''plannedDuration'')
   \<and> (\<exists>s w'. post_focus_sessions example_empty_world 0 ''s1'' ''u1''
          \<lparr>body_taskId = None, body_plannedDuration = 120, body_moduleConfigurationId = None\<rparr>
          = Inr (s, w')
        \<and> status s = planned \<and> plannedDuration s = 120
        \<and> focusSessions (db w') ''s1'' = Some s)"
proof -
  have f: "focusSessions (db example_empty_world) ''s1'' = None"
    by (simp add: example_empty_world_def example_db_def)
  from post_focus_sessions_accepts_1_to_120 [of example_empty_world 0 "''s1''" "''u1''"
      "\<lparr>body_taskId = None, body_plannedDuration = 121, body_moduleConfigurationId = None\<rparr>"]
  have a: "post_focus_sessions example_empty_world 0 ''s1'' ''u1''
     \<lparr>body_taskId = None, body_plannedDuration = 121, body_moduleConfigurationId = None\<rparr>
     = Inl (ValidationError ''plannedDuration'')"
    by simp
  from post_focus_sessions_accepts_1_to_120 [of example_empty_world 0 "''s1''" "''u1''"
      "\<lparr>body_taskId = None, body_plannedDuration = 0, body_moduleConfigurationId = None\<rparr>"]
  have b: "post_focus_sessions example_empty_world 0 ''s1'' ''u1''
     \<lparr>body_taskId = None, body_plannedDuration = 0, body_moduleConfigurationId = None\<rparr>
     = Inl (ValidationError ''plannedDuration'')"
    by simp
  from post_focus_sessions_accepts_1_to_120 [of example_empty_world 0 "''s1''" "''u1''"
      "\<lparr>body_taskId = None, body_plannedDuration = 120, body_moduleConfigurationId = None\<rparr>"] f
  have c: "\<exists>s w'. post_focus_sessions example_empty_world 0 ''s1'' ''u1''
          \<lparr>body_taskId = None, body_plannedDuration = 120, body_moduleConfigurationId = None\<rparr>
          = Inr (s, w')
        \<and> status s = planned \<and> plannedDuration s = 120
        \<and> focusSessions (db w') ''s1'' = Some s"
    by simp
  from a b c show ?thesis by blast
qed

text \<open>The service method itself accepts any duration the table admits, 480 or not.\<close>

lemma createSession_ignores_maximum:
  "\<exists>s w'. createSession example_empty_world 0 ''s1'' (example_data\<lparr>data_plannedDuration := 1000\<rparr>)
     = Inr (s, w') \<and> plannedDuration s = 1000"
  by (simp add: createSession_def validateModuleConfiguration_def example_empty_world_def
      example_data_def example_preset_def example_db_def Let_def)

subsection \<open>The cached generation rate\<close>


lemma redis_setex_expired:
  "t + seconds * 1000 \<le> now \<Longrightarrow> redis_get (redis_setex r t key seconds v) now key = None"
  by (simp add: redis_get_def redis_setex_def)

lemma createSession_cache_expires:
  assumes "createSession w t new_id data = Inr (s, w')"
    and "t + data_plannedDuration data * 60 * 1000 \<le> now"
  shows "redis_get (redis w') now (session_key new_id) = None"
  using assms
  by (auto simp: createSession_def Let_def redis_setex_expired split: option.splits sum.splits if_splits)

lemma startSession_cache_expires:
  assumes "startSession w t sid u = Inr (s, w')"
    and "t + plannedDuration s * 60 * 1000 \<le> now"
  shows "redis_get (redis w') now (session_key sid) = None"
  using assms
  by (auto simp: startSession_def Let_def redis_setex_expired split: option.splits sum.splits if_splits)



lemma example_started_world_cache:
  "redis_get (redis example_started_world) now (session_key ''s1'')
     = (if now < 1501000
        then Some \<lparr>cached = example_started_session, cached_dopamineGenerationRate = None\<rparr>
        else None)"
  by (simp add: example_started_world_def createSession_def startSession_def
      validateModuleConfiguration_def validateSessionAccess_def example_empty_world_def
      example_data_def example_preset_def example_db_def example_started_session_def Let_def
      redis_get_def redis_setex_def)


section \<open>Rewards in double arithmetic and in decimals\<close>

lemma round_to_double_rel:
  assumes "pow2 (- 1022) \<le> x"
  shows "x * (1 - 1 / 2 ^ 53) \<le> round_to_double x \<and> round_to_double x \<le> x * (1 + 1 / 2 ^ 53)"
proof -
  define e where "e = x / 2 ^ 53"
  from round_to_double_error [OF assms]
  have "\<bar>round_to_double x - x\<bar> \<le> e" by (simp only: e_def)
  then have "x - e \<le> round_to_double x" "round_to_double x \<le> x + e"
    by linarith+
  moreover have "x * (1 - 1 / 2 ^ 53) = x - e" "x * (1 + 1 / 2 ^ 53) = x + e"
    by (simp_all only: e_def algebra_simps times_divide_eq_right mult_1_right)
  ultimately show ?thesis by simp
qed



lemma floor_half_rat [simp]: "\<lfloor>1 / 2 :: rat\<rfloor> = 0"
  by (rule floor_unique) simp_all


lemma lit_numeral_100: "lit 100 = Num 100" and lit_numeral_10000: "lit 10000 = Num 10000"
  by (simp_all add: lit_def)




lemma category_bonus_decimal:
  "category_bonus c = lit (case map_of CATEGORY_BONUSES c of Some b \<Rightarrow> b | None \<Rightarrow> 1)"
  by (simp add: category_bonus_def categoryBonuses_def CATEGORY_BONUSES_def)






subsection \<open>Dopamine\<close>







text \<open>
  Between \<^verbatim>\<open>startSession\<close> and the expiry, the cache entry is the one that
  \<^verbatim>\<open>startSession\<close> wrote, which has no rate: the reward is \<open>NaN\<close>.
\<close>

lemma dopamine_is_NaN_after_start:
  "calculateDopamineEarned (redis example_started_world) 600000 example_started_session 10 = NaN"
  by (simp add: calculateDopamineEarned_def example_started_world_cache example_started_session_def)

section \<open>Lifetime totals over completed sessions\<close>

lemma round_to_double_le_neg:
  assumes "x \<le> - c" and "pow2 (- 1022) \<le> c"
  shows "round_to_double x \<le> - (c * (7 / 8))"
proof -
  have n: "pow2 (- 1022) \<le> - x" using assms by linarith
  from round_to_double_rel [OF n]
  have "- x * (1 - 1 / 2 ^ 53) \<le> round_to_double (- x)" by simp
  moreover have "c * (7 / 8) \<le> - x * (1 - 1 / 2 ^ 53)"
  proof -
    have cpos: "0 \<le> c" using assms(2) pow2_pos [of "- 1022"] by linarith
    have "c * (7 / 8) \<le> c * (1 - 1 / 2 ^ 53)"
      using cpos by (intro mult_left_mono) simp_all
    also have "\<dots> \<le> - x * (1 - 1 / 2 ^ 53)"
      using assms(1) by (intro mult_right_mono) simp_all
    finally show ?thesis .
  qed
  ultimately have "c * (7 / 8) \<le> round_to_double (- x)" by simp
  then show ?thesis by (simp add: round_to_double_uminus)
qed

lemma below_weaken: "below c n \<Longrightarrow> c' \<le> c \<Longrightarrow> below c' n"
  by (auto simp: below_def)

lemma below_times:
  assumes "below c n" and "m \<le> y" and "0 < m" and "0 \<le> c" and "pow2 (- 1022) \<le> c * m"
  shows "below (c * m * (7 / 8)) (js_times n (Num y))"
proof -
  from assms(1) obtain x where x: "n = Num x" "x \<le> - c" by (auto simp: below_def)
  have "x * y \<le> - c * y" using x(2) assms(2,3) by (intro mult_right_mono) simp_all
  moreover have "c * m \<le> c * y" using assms(2,4) by (intro mult_left_mono) simp_all
  ultimately have "x * y \<le> - (c * m)" by simp
  from round_to_double_le_neg [OF this assms(5)]
  show ?thesis by (simp add: below_def x)
qed

lemma p1022: "pow2 (- 1022) \<le> 1 / 65536"
proof -
  have "pow2 (- 1022) \<le> pow2 (- 16)" by (rule pow2_mono) simp
  then show ?thesis by (simp add: pow2_def)
qed

lemma lit_lower:
  assumes "1 / 2 \<le> c0"
  shows "\<exists>y. lit c0 = Num y \<and> c0 * (7 / 8) \<le> y"
proof -
  have n: "pow2 (- 1022) \<le> c0" using assms p1022 by linarith
  from round_to_double_rel [OF n]
  have "c0 * (1 - 1 / 2 ^ 53) \<le> round_to_double c0" by simp
  moreover have "c0 * (7 / 8) \<le> c0 * (1 - 1 / 2 ^ 53)"
    using assms by (intro mult_left_mono) simp_all
  ultimately show ?thesis by (simp add: lit_def)
qed

lemma category_bonus_lower: "\<exists>y. category_bonus c = Num y \<and> 63 / 80 \<le> y"
proof -
  define c0 where "c0 = (case map_of CATEGORY_BONUSES c of Some b \<Rightarrow> b | None \<Rightarrow> 1)"
  have "c0 \<in> {12 / 10, 11 / 10, 115 / 100, 9 / 10, 1}"
    by (simp add: c0_def CATEGORY_BONUSES_def)
  then have c: "9 / 10 \<le> c0" by auto
  then have "1 / 2 \<le> c0" by linarith
  from lit_lower [OF this] obtain y where y: "lit c0 = Num y" "c0 * (7 / 8) \<le> y" by blast
  have "9 / 10 * (7 / 8) \<le> c0 * (7 / 8)" using c by (intro mult_right_mono) simp_all
  then have "63 / 80 \<le> y" using y(2) by simp
  then show ?thesis using y(1) by (simp add: category_bonus_decimal c0_def)
qed

lemma penalty_lower:
  "\<exists>y. Math_max (lit (1 / 2)) (js_minus (lit 1) (js_times (number_of_int k) (lit (1 / 10)))) = Num y
       \<and> 7 / 16 \<le> y"
proof -
  obtain h where h: "lit (1 / 2) = Num h" "1 / 2 * (7 / 8) \<le> h"
    using lit_lower [of "1 / 2"] by auto
  obtain v where v: "js_minus (lit 1) (js_times (number_of_int k) (lit (1 / 10))) = Num v"
    by (simp add: lit_def number_of_int_def)
  show ?thesis using h by (simp add: v)
qed

text \<open>A negative duration earns a negative energy, which the ledger rejects.\<close>

lemma calculateEnergyEarned_negative:
  assumes "duration < 0"
  shows "js_less (calculateEnergyEarned session duration) (Num 0)"
proof -
  \<comment> \<open>the duration as a number\<close>
  have d: "of_int duration \<le> - (1 :: rat)" using assms by linarith
  have "pow2 (- 1022) \<le> 1" using p1022 by linarith
  from round_to_double_le_neg [OF d this]
  have b0: "below (7 / 8) (number_of_int duration)"
    by (simp add: below_def number_of_int_def)
  \<comment> \<open>the category bonus\<close>
  define e1 where "e1 = (case task session of
      Some t \<Rightarrow> js_times (number_of_int duration) (category_bonus (category t))
    | None \<Rightarrow> number_of_int duration)"
  have b1: "below (3087 / 5120) e1"
  proof (cases "task session")
    case None
    then show ?thesis using below_weaken [OF b0, of "3087 / 5120"] by (simp add: e1_def)
  next
    case (Some t)
    obtain y where y: "category_bonus (category t) = Num y" "63 / 80 \<le> y"
      using category_bonus_lower by blast
    have "below (7 / 8 * (63 / 80) * (7 / 8)) (js_times (number_of_int duration) (Num y))"
      using p1022 by (intro below_times [OF b0 y(2)]) simp_all
    then show ?thesis by (simp add: e1_def Some y(1))
  qed
  \<comment> \<open>the interruption penalty\<close>
  define e2 where "e2 = (if 0 < interruptionCount session
      then js_times e1 (Math_max (lit (1 / 2))
             (js_minus (lit 1) (js_times (number_of_int (interruptionCount session)) (lit (1 / 10)))))
      else e1)"
  have b2: "below (1 / 5) e2"
  proof (cases "0 < interruptionCount session")
    case False
    then show ?thesis using below_weaken [OF b1, of "1 / 5"] by (simp add: e2_def)
  next
    case True
    obtain y where y: "Math_max (lit (1 / 2))
        (js_minus (lit 1) (js_times (number_of_int (interruptionCount session)) (lit (1 / 10)))) = Num y"
      "7 / 16 \<le> y"
      using penalty_lower by blast
    have "below (3087 / 5120 * (7 / 16) * (7 / 8)) (js_times e1 (Num y))"
      using p1022 by (intro below_times [OF b1 y(2)]) simp_all
    then have "below (1 / 5) (js_times e1 (Num y))"
      by (rule below_weaken) simp
    then show ?thesis by (simp add: e2_def True y(1))
  qed
  \<comment> \<open>times 100, rounded, divided by 100\<close>
  have "below (1 / 5 * 100 * (7 / 8)) (js_times e2 (Num 100))"
    using p1022 by (intro below_times [OF b2]) simp_all
  then obtain x3 where x3: "js_times e2 (Num 100) = Num x3" "x3 \<le> - (35 / 2)"
    by (auto simp: below_def)
  have e: "calculateEnergyEarned session duration
      = js_divide (Math_round (js_times e2 (Num 100))) (Num 100)"
    using assms by (simp add: calculateEnergyEarned_def Let_def e2_def e1_def lit_numeral_100)
  have fl: "\<lfloor>x3 + 1 / 2\<rfloor> \<le> - 17"
  proof -
    have "x3 + 1 / 2 < of_int (- 16)" using x3(2) by simp
    then have "\<lfloor>x3 + 1 / 2\<rfloor> < - 16" by (simp only: floor_less_iff)
    then show ?thesis by simp
  qed
  have "(of_int \<lfloor>x3 + 1 / 2\<rfloor> :: rat) \<le> of_int (- 17)" using fl by (simp only: of_int_le_iff)
  then have "(of_int \<lfloor>x3 + 1 / 2\<rfloor> :: rat) / 100 \<le> - (17 / 100)" by simp
  moreover have "pow2 (- 1022) \<le> 17 / 100" using p1022 by linarith
  ultimately have "round_to_double (of_int \<lfloor>x3 + 1 / 2\<rfloor> / 100) \<le> - (17 / 100 * (7 / 8))"
    by (rule round_to_double_le_neg)
  then have "round_to_double (of_int \<lfloor>x3 + 1 / 2\<rfloor> / 100) < 0" by simp
  then show ?thesis by (simp add: e x3(1))
qed


lemma redis_get_entry: "redis_get r now key = Some cs \<Longrightarrow> \<exists>t. r key = Some (cs, t)"
  by (auto simp: redis_get_def split: option.splits if_splits)

lemma rates_not_negative_del: "rates_not_negative r \<Longrightarrow> rates_not_negative (redis_del r key)"
  by (simp add: rates_not_negative_def redis_del_def)

lemma rates_not_negative_setex:
  assumes "rates_not_negative r"
    and "\<And>x. cached_dopamineGenerationRate v = Some (Num x) \<Longrightarrow> 0 \<le> x"
  shows "rates_not_negative (redis_setex r now key seconds v)"
  using assms by (auto simp: rates_not_negative_def redis_setex_def)

lemma createSession_rates_not_negative:
  assumes "createSession w now new_id data = Inr (s, w')"
    and "rates_not_negative (redis w)" and "presets_not_negative (db w)"
  shows "rates_not_negative (redis w')"
  using assms
  by (auto simp: createSession_def validateModuleConfiguration_def Let_def presets_not_negative_def
      intro!: rates_not_negative_setex split: option.splits sum.splits if_splits)

lemma startSession_rates_not_negative:
  assumes "startSession w now sid u = Inr (s, w')" and "rates_not_negative (redis w)"
  shows "rates_not_negative (redis w')"
  using assms
  by (auto simp: startSession_def Let_def intro!: rates_not_negative_setex
      split: option.splits sum.splits if_splits)

lemma completeSession_rates_not_negative:
  assumes "rates_not_negative (redis w)"
  shows "rates_not_negative (redis (snd (completeSession w now sid u actual)))"
  using assms
  by (auto simp: completeSession_def Let_def rates_not_negative_del
      split: option.splits sum.splits if_splits prod.splits)

lemma updateTaskCompletion_balances:
  "updateTaskCompletion d now t = (b, d') \<Longrightarrow> user_currency_balances d' = user_currency_balances d"
  by (auto simp: updateTaskCompletion_def split: option.splits if_splits)

lemma completeSession_credit:
  assumes "rates_not_negative (redis w)" and "user_currency_balances (db w) v = Some b"
  shows "\<exists>b'. user_currency_balances (db (snd (completeSession w now sid u actual))) v = Some b'
           \<and> sql_le (total_energy_earned b) (total_energy_earned b')
           \<and> sql_le (total_dopamine_earned b) (total_dopamine_earned b')"
proof (cases "validateSessionAccess (db w) sid u")
  case (Inl e)
  then show ?thesis using assms(2) by (simp add: completeSession_def sql_le_refl)
next
  case (Inr session)
  show ?thesis
  proof (cases "status session = active")
    case False
    then show ?thesis using assms(2) Inr by (simp add: completeSession_def sql_le_refl)
  next
    case True
    define duration where "duration = (case actual of
        None \<Rightarrow> (now - startTime session) div 1000 div 60
      | Some a \<Rightarrow> if a \<noteq> 0 then a else (now - startTime session) div 1000 div 60)"
    define energy where "energy = calculateEnergyEarned session duration"
    define dopamine where "dopamine = calculateDopamineEarned (redis w) now session duration"
    define d1 where "d1 = (db w)\<lparr>focusSessions := (focusSessions (db w))(sid \<mapsto>
        session\<lparr>status := completed, endTime := Some now, actualDuration := Some duration,
                 energyGenerated := Some energy, dopamineGenerated := Some dopamine\<rparr>)\<rparr>"
    have b1: "user_currency_balances d1 v = Some b" using assms(2) by (simp add: d1_def)
    show ?thesis
    proof (cases "processSessionRewards d1 u energy dopamine sid")
      case (Inl e)
      then have "snd (completeSession w now sid u actual) = w\<lparr>db := d1\<rparr>"
        using Inr True
        by (simp add: completeSession_def Let_def duration_def energy_def dopamine_def d1_def)
      then show ?thesis using b1 by (simp add: sql_le_refl)
    next
      case credited: (Inr d2)
      have nn: "sql_le (Num 0) dopamine"
      proof (cases "duration < 0")
        case True
        then have "js_less energy (Num 0)"
          unfolding energy_def by (rule calculateEnergyEarned_negative)
        with credited show ?thesis by (elim processSessionRewards_Inr) simp
      next
        case False
        then have "0 \<le> duration" by simp
        then show ?thesis
          unfolding dopamine_def
        proof (rule calculateDopamineEarned_nonneg)
          fix cs x
          assume "redis_get (redis w) now (session_key (session_id session)) = Some cs"
            and r: "cached_dopamineGenerationRate cs = Some (Num x)"
          then obtain t where "redis w (session_key (session_id session)) = Some (cs, t)"
            using redis_get_entry by blast
          with assms(1) r show "0 \<le> x" by (auto simp: rates_not_negative_def)
        qed
      qed
      from processSessionRewards_totals [OF credited nn b1]
      obtain b' where b': "user_currency_balances d2 v = Some b'"
        "sql_le (total_energy_earned b) (total_energy_earned b')"
        "sql_le (total_dopamine_earned b) (total_dopamine_earned b')"
        by blast
      have "user_currency_balances (db (snd (completeSession w now sid u actual))) = user_currency_balances d2"
        using Inr True credited
        by (auto simp: completeSession_def Let_def duration_def energy_def dopamine_def d1_def
            dest: updateTaskCompletion_balances split: option.splits prod.splits)
      with b' show ?thesis by auto
    qed
  qed
qed

text \<open>
  Over any sequence of \<^verbatim>\<open>completeSession\<close> calls, the only source of credits, the
  lifetime totals never decrease, when the cached rates are not negative, as
  \<^verbatim>\<open>createSession\<close> leaves them for presets that satisfy their table's \<^verbatim>\<open>CHECK\<close>.
\<close>

lemma session_rewards_never_lower_totals:
  assumes "rates_not_negative (redis w)" and "user_currency_balances (db w) v = Some b"
  shows "\<exists>b'. user_currency_balances (db (complete_all w calls)) v = Some b'
           \<and> sql_le (total_energy_earned b) (total_energy_earned b')
           \<and> sql_le (total_dopamine_earned b) (total_dopamine_earned b')"
  using assms
proof (induction calls arbitrary: w b)
  case Nil
  then show ?case by (simp add: sql_le_refl)
next
  case (Cons call calls)
  obtain now sid u actual where call: "call = (now, sid, u, actual)" by (cases call) auto
  from completeSession_credit [OF Cons.prems, of now sid u actual]
  obtain b1 where b1: "user_currency_balances (db (snd (completeSession w now sid u actual))) v = Some b1"
    "sql_le (total_energy_earned b) (total_energy_earned b1)"
    "sql_le (total_dopamine_earned b) (total_dopamine_earned b1)"
    by blast
  from Cons.IH [OF completeSession_rates_not_negative [OF Cons.prems(1)] b1(1)]
  obtain b' where "user_currency_balances (db (complete_all (snd (completeSession w now sid u actual)) calls)) v
      = Some b'"
    "sql_le (total_energy_earned b1) (total_energy_earned b')"
    "sql_le (total_dopamine_earned b1) (total_dopamine_earned b')"
    by blast
  with b1 show ?case by (auto simp: call intro: sql_le_trans)
qed

text \<open>The example world after \<^verbatim>\<open>createSession\<close> satisfies the invariant.\<close>

lemma example_created_world_rates: "rates_not_negative (redis example_created_world)"
  by (auto simp: example_created_world_def createSession_def validateModuleConfiguration_def
      example_empty_world_def example_data_def example_preset_def example_db_def Let_def
      rates_not_negative_def redis_setex_def lit_def round_to_double_nonneg split: if_splits)

end
